theory Spec2Isabelle
  imports Complex_Main "HOL-Library.Sublist" "HOL-Library.AList"
begin

section \<open>The script executor of the custom widgets\<close>

text \<open>
  The development embeds \<^verbatim>\<open>ScriptExecutorService\<close>
  (\<^verbatim>\<open>backend/src/custom-widgets/services/script-executor.service.ts\<close>).
  JavaScript strings are modelled as \<^typ>\<open>string\<close>: a list of code units, of which the
  model has the first 256. The classes \<^verbatim>\<open>\w\<close> and \<^verbatim>\<open>\s\<close> of the regular
  expressions of the service are ASCII classes (plus the no-break space for \<^verbatim>\<open>\s\<close>),
  so every code unit beyond them behaves as a non-word, non-space character does.
\<close>

subsection \<open>Values thrown and caught\<close>

text \<open>
  Both \<^verbatim>\<open>catch\<close> blocks of the service turn the caught value into a message with
  \<^verbatim>\<open>error instanceof Error ? error.message : String(error)\<close>. What matters of a thrown
  value is therefore: whether it is an instance of the host's \<^verbatim>\<open>Error\<close> (and its
  message), and otherwise what \<^verbatim>\<open>String(error)\<close> does. \<^verbatim>\<open>String\<close> calls the
  value's own \<^verbatim>\<open>toString\<close>, so it returns a string, throws a further value, or never
  returns.
\<close>

datatype js_thrown =
    HostError string        \<comment> \<open>\<^verbatim>\<open>instanceof Error\<close> holds; the argument is \<^verbatim>\<open>error.message\<close>\<close>
  | Printable string        \<comment> \<open>not a host \<^verbatim>\<open>Error\<close>; \<^verbatim>\<open>String(error)\<close> returns the argument\<close>
  | Unprintable js_thrown   \<comment> \<open>not a host \<^verbatim>\<open>Error\<close>; \<^verbatim>\<open>String(error)\<close> throws the argument\<close>
  | Unending                \<comment> \<open>not a host \<^verbatim>\<open>Error\<close>; \<^verbatim>\<open>String(error)\<close> does not return\<close>

datatype 'a outcome =
    Returns 'a              \<comment> \<open>the call returns the value\<close>
  | Propagates js_thrown    \<comment> \<open>the call throws the value to its caller\<close>
  | NoReturn                \<comment> \<open>the call never returns\<close>

fun caught_message :: "js_thrown \<Rightarrow> string outcome" where
  "caught_message (HostError m) = Returns m"
| "caught_message (Printable s) = Returns s"
| "caught_message (Unprintable e) = Propagates e"
| "caught_message Unending = NoReturn"

subsection \<open>Text helpers\<close>

definition digit_char :: "nat \<Rightarrow> char" where
  "digit_char d = ''0123456789'' ! (d mod 10)"

function show_nat :: "nat \<Rightarrow> string" where
  "show_nat n = (if n < 10 then [digit_char n] else show_nat (n div 10) @ [digit_char (n mod 10)])"
  by pat_completeness auto
termination
  by (relation "measure id") auto

declare show_nat.simps [simp del]

fun contains_text :: "string \<Rightarrow> string \<Rightarrow> bool" where
  "contains_text needle [] = (needle = [])"
| "contains_text needle (c # cs) = (prefix needle (c # cs) \<or> contains_text needle cs)"

fun join :: "string \<Rightarrow> string list \<Rightarrow> string" where
  "join sep [] = []"
| "join sep [x] = x"
| "join sep (x # y # ys) = x @ sep @ join sep (y # ys)"

subsection \<open>The validator\<close>

definition TIMEOUT_MS :: nat where
  "TIMEOUT_MS = 1000"

definition MAX_SCRIPT_LENGTH :: nat where
  "MAX_SCRIPT_LENGTH = 10000"

text \<open>
  \<^verbatim>\<open>BLOCKED_PATTERNS\<close> is a list of regular expressions \<^verbatim>\<open>/\bTOKEN\b/\<close>; the list below
  has their tokens, in the order of the source. \<^verbatim>\<open>pattern_source\<close> is the
  \<^verbatim>\<open>source\<close> property of such an expression.
\<close>

definition BLOCKED_PATTERNS :: "string list" where
  "BLOCKED_PATTERNS =
    [''constructor'', ''__proto__'', ''prototype'', ''Function'', ''eval'', ''import'',
     ''globalThis'', ''process'', ''require'', ''Proxy'', ''Reflect'', ''Symbol'',
     ''WeakRef'', ''FinalizationRegistry'']"

definition backslash :: char where
  "backslash = CHR 0x5C"

definition pattern_source :: "string \<Rightarrow> string" where
  "pattern_source tok = [backslash, CHR ''b''] @ tok @ [backslash, CHR ''b'']"

text \<open>\<^verbatim>\<open>s.replace(/\\b/g, '')\<close>: every backslash followed by \<^verbatim>\<open>b\<close> is removed, left to right.\<close>

fun strip_word_marks :: "string \<Rightarrow> string" where
  "strip_word_marks (a # b # cs) =
     (if a = backslash \<and> b = CHR ''b'' then strip_word_marks cs
      else a # strip_word_marks (b # cs))"
| "strip_word_marks cs = cs"

text \<open>The class \<^verbatim>\<open>\w\<close> of a regular expression without the unicode flag.\<close>

definition is_word_char :: "char \<Rightarrow> bool" where
  "is_word_char c \<longleftrightarrow>
     c \<in> set ''ABCDEFGHIJKLMNOPQRSTUVWXYZabcdefghijklmnopqrstuvwxyz0123456789_''"

text \<open>
  \<^verbatim>\<open>\b\<close> holds between two neighbouring positions when exactly one of them has a word
  character; the position before the start and the one after the end have none.
\<close>

definition word_at :: "char option \<Rightarrow> bool" where
  "word_at c = (case c of None \<Rightarrow> False | Some x \<Rightarrow> is_word_char x)"

definition word_boundary :: "char option \<Rightarrow> char option \<Rightarrow> bool" where
  "word_boundary prev nxt \<longleftrightarrow> word_at prev \<noteq> word_at nxt"

definition first_char :: "string \<Rightarrow> char option" where
  "first_char s = (case s of [] \<Rightarrow> None | c # _ \<Rightarrow> Some c)"

definition last_char :: "char option \<Rightarrow> string \<Rightarrow> char option" where
  "last_char prev s = (if s = [] then prev else Some (last s))"

text \<open>
  \<^verbatim>\<open>/\bTOKEN\b/\<close> tried at one position: \<open>prev\<close> is the character left of the position,
  \<open>s\<close> the text from the position on.
\<close>

definition matches_here :: "string \<Rightarrow> char option \<Rightarrow> string \<Rightarrow> bool" where
  "matches_here tok prev s \<longleftrightarrow>
     word_boundary prev (first_char s) \<and> prefix tok s \<and>
     word_boundary (last_char prev tok) (first_char (drop (length tok) s))"

text \<open>\<^verbatim>\<open>pattern.test(code)\<close>: the expression is tried at every position, from the left.\<close>

fun test_from :: "string \<Rightarrow> char option \<Rightarrow> string \<Rightarrow> bool" where
  "test_from tok prev [] = matches_here tok prev []"
| "test_from tok prev (c # cs) =
     (matches_here tok prev (c # cs) \<or> test_from tok (Some c) cs)"

definition pattern_test :: "string \<Rightarrow> string \<Rightarrow> bool" where
  "pattern_test tok code = test_from tok None code"

text \<open>The loop over \<^verbatim>\<open>BLOCKED_PATTERNS\<close>: the first expression that matches throws.\<close>

fun check_patterns :: "string list \<Rightarrow> string \<Rightarrow> js_thrown + unit" where
  "check_patterns [] code = Inr ()"
| "check_patterns (tok # toks) code =
     (if pattern_test tok code
      then Inl (HostError (''Script contains forbidden keyword: '' @
                           strip_word_marks (pattern_source tok)))
      else check_patterns toks code)"

definition validateScript :: "string \<Rightarrow> js_thrown + unit" where
  "validateScript code =
     (if length code > MAX_SCRIPT_LENGTH
      then Inl (HostError (''Script too large: '' @ show_nat (length code) @
                           '' characters (max '' @ show_nat MAX_SCRIPT_LENGTH @ '')''))
      else check_patterns BLOCKED_PATTERNS code)"

subsection \<open>The scan for declared variables\<close>

text \<open>
  \<^verbatim>\<open>/(?:var|let|const)\s+([a-zA-Z_$][a-zA-Z0-9_$]*)/g\<close>. The class \<^verbatim>\<open>\s\<close> has,
  among the code units of the model, the tab, the line feed, the vertical tab, the form
  feed, the carriage return, the space and the no-break space.
\<close>

definition is_space :: "char \<Rightarrow> bool" where
  "is_space c \<longleftrightarrow> c \<in> set [CHR 0x09, CHR 0x0A, CHR 0x0B, CHR 0x0C, CHR 0x0D, CHR 0x20, CHR 0xA0]"

definition is_ident_start :: "char \<Rightarrow> bool" where
  "is_ident_start c \<longleftrightarrow>
     c \<in> set ''abcdefghijklmnopqrstuvwxyzABCDEFGHIJKLMNOPQRSTUVWXYZ_$''"

definition is_ident_char :: "char \<Rightarrow> bool" where
  "is_ident_char c \<longleftrightarrow>
     c \<in> set ''abcdefghijklmnopqrstuvwxyzABCDEFGHIJKLMNOPQRSTUVWXYZ0123456789_$''"

definition strip_keyword :: "string \<Rightarrow> (nat \<times> string) option" where
  "strip_keyword s =
     (if prefix ''var'' s then Some (3, drop 3 s)
      else if prefix ''let'' s then Some (3, drop 3 s)
      else if prefix ''const'' s then Some (5, drop 5 s)
      else None)"

text \<open>
  The expression tried at the start of \<open>s\<close>: the captured name and the length of the whole
  match. \<^verbatim>\<open>\s+\<close> and the name are greedy; giving back a space or a character of the name
  never turns a failure into a match, since a space starts no name.
\<close>

definition match_decl :: "string \<Rightarrow> (string \<times> nat) option" where
  "match_decl s =
     (case strip_keyword s of
        None \<Rightarrow> None
      | Some (k, rest) \<Rightarrow>
          (let spaces = takeWhile is_space rest; rest2 = dropWhile is_space rest in
           if spaces = [] then None
           else (case rest2 of
                   [] \<Rightarrow> None
                 | c # cs \<Rightarrow>
                     if is_ident_start c
                     then Some (c # takeWhile is_ident_char cs,
                                k + length spaces + Suc (length (takeWhile is_ident_char cs)))
                     else None)))"

text \<open>
  The \<^verbatim>\<open>while ((match = varRegex.exec(code)) !== null)\<close> loop. \<open>skip\<close> counts the
  characters of the last match that are still to be passed: \<^verbatim>\<open>exec\<close> resumes at
  \<^verbatim>\<open>lastIndex\<close>, the end of the last match.
\<close>

fun scan_decls :: "nat \<Rightarrow> string \<Rightarrow> string list" where
  "scan_decls skip [] = []"
| "scan_decls skip (c # cs) =
     (if skip > 0 then scan_decls (skip - 1) cs
      else (case match_decl (c # cs) of
              Some (name, len) \<Rightarrow> name # scan_decls (len - 1) cs
            | None \<Rightarrow> scan_decls 0 cs))"

text \<open>\<^verbatim>\<open>[...new Set(names)]\<close>: the first occurrence of each name, in the order of insertion.\<close>

fun unique_from :: "'a list \<Rightarrow> 'a list \<Rightarrow> 'a list" where
  "unique_from seen [] = []"
| "unique_from seen (x # xs) =
     (if x \<in> set seen then unique_from seen xs else x # unique_from (x # seen) xs)"

definition extractVariableNames :: "string \<Rightarrow> string list" where
  "extractVariableNames code =
     unique_from [] (filter (\<lambda>name. \<not> prefix ''__'' name) (scan_decls 0 code))"

subsection \<open>Values and the platform\<close>

text \<open>
  The values of scripts. A \<open>JObj\<close> is a plain object: its own properties in the order of
  their insertion. Numbers are only carried by the service, never computed with.
  \<open>JExotic\<close> stands for every other value (a function, the global object, ...).
\<close>

datatype js_value =
    JUndefined
  | JNull
  | JBool bool
  | JNum real
  | JStr string
  | JArr "js_value list"
  | JObj "(string \<times> js_value) list"
  | JExotic nat

text \<open>The properties of a context object, as the host sees them.\<close>

type_synonym scope = "string \<Rightarrow> js_value option"

text \<open>
  The service calls Node's \<^verbatim>\<open>vm\<close> module and the host's \<^verbatim>\<open>JSON\<close>; neither is code
  of the repository, so they are parameters of the model:
  \<^item> \<open>json_stringify\<close>: the host's \<^verbatim>\<open>JSON.stringify\<close> on the data: it throws, or returns a
    string, or returns \<^verbatim>\<open>undefined\<close> (\<open>None\<close>);
  \<^item> \<open>new_script\<close>: \<^verbatim>\<open>new vm.Script(text)\<close>, which throws on a syntax error;
  \<^item> \<open>run_in_context\<close>: \<^verbatim>\<open>script.runInContext(context, {timeout})\<close> for the script
    compiled from the text: it throws (a value thrown by the script, or the error of the
    timeout), or returns the value of the script and leaves the context changed.
  The service hands the platform script text and nothing else; what a text does is the
  platform's to say.
\<close>

record platform =
  json_stringify :: "js_value \<Rightarrow> js_thrown + string option"
  new_script :: "string \<Rightarrow> js_thrown option"
  run_in_context :: "string \<Rightarrow> nat \<Rightarrow> scope \<Rightarrow> js_thrown + (js_value \<times> scope)"

text \<open>The calls the service makes to the \<^verbatim>\<open>vm\<close> module and to its logger.\<close>

datatype vm_event =
    CreateContext
  | NewScript string
  | RunInContext string nat
  | LoggerWarn string

subsection \<open>The service\<close>

datatype mode = Value | Template

text \<open>
  \<^verbatim>\<open>ScriptResult\<close>: \<open>val\<close> is the field \<^verbatim>\<open>value\<close>; an optional field that is absent is
  \<open>None\<close>. \<^verbatim>\<open>variables\<close> holds whatever the wrapped script returned: the service casts
  it to a record without a check.
\<close>

record ScriptResult =
  success :: bool
  val :: "js_value option"
  variables :: "js_value option"
  error :: "string option"

definition succeeded_value :: "js_value \<Rightarrow> ScriptResult" where
  "succeeded_value v = \<lparr>success = True, val = Some v, variables = None, error = None\<rparr>"

definition succeeded_variables :: "js_value \<Rightarrow> ScriptResult" where
  "succeeded_variables v = \<lparr>success = True, val = None, variables = Some v, error = None\<rparr>"

definition failed :: "string \<Rightarrow> ScriptResult" where
  "failed m = \<lparr>success = False, val = None, variables = None, error = Some m\<rparr>"

text \<open>
  The \<^verbatim>\<open>catch\<close> block of \<^verbatim>\<open>executeValueMode\<close> and \<^verbatim>\<open>executeTemplateMode\<close>. When
  \<^verbatim>\<open>String(error)\<close> throws, the block throws.
\<close>

definition mode_catch :: "js_thrown \<Rightarrow> ScriptResult outcome" where
  "mode_catch e =
     (case caught_message e of
        Returns m \<Rightarrow> Returns (failed m)
      | Propagates e' \<Rightarrow> Propagates e'
      | NoReturn \<Rightarrow> NoReturn)"

text \<open>\<^verbatim>\<open>`(function() { ${code} })()`\<close>: the user's text between two fixed texts.\<close>

definition value_wrapped :: "string \<Rightarrow> string" where
  "value_wrapped code = ''(function() { '' @ code @ '' })()''"

definition executeValueMode ::
  "platform \<Rightarrow> scope \<Rightarrow> string \<Rightarrow> vm_event list \<times> ScriptResult outcome" where
  "executeValueMode p context code =
     (let wrappedCode = value_wrapped code in
      case new_script p wrappedCode of
        Some e \<Rightarrow> ([NewScript wrappedCode], mode_catch e)
      | None \<Rightarrow>
          (case run_in_context p wrappedCode TIMEOUT_MS context of
             Inr (result, context') \<Rightarrow>
               ([NewScript wrappedCode, RunInContext wrappedCode TIMEOUT_MS],
                Returns (succeeded_value result))
           | Inl e \<Rightarrow>
               ([NewScript wrappedCode, RunInContext wrappedCode TIMEOUT_MS], mode_catch e)))"

text \<open>
  The text \<^verbatim>\<open>if (typeof v !== 'undefined') __vars['v'] = v;\<close> for a name \<open>v\<close>, the texts
  of all names joined by line feeds, and the template literal of \<^verbatim>\<open>executeTemplateMode\<close>
  with its line feeds and its indentation.
\<close>

definition quote :: char where
  "quote = CHR 0x27"

definition collect_statement :: "string \<Rightarrow> string" where
  "collect_statement v =
     ''if (typeof '' @ v @ '' !== '' @ [quote] @ ''undefined'' @ [quote] @ '') __vars['' @
     [quote] @ v @ [quote] @ ''] = '' @ v @ '';''"

definition collectVarsCode :: "string list \<Rightarrow> string" where
  "collectVarsCode variableNames = join [CHR 0x0A] (map collect_statement variableNames)"

definition template_wrapped :: "string \<Rightarrow> string list \<Rightarrow> string" where
  "template_wrapped code variableNames =
     [CHR 0x0A] @ ''      (function() {'' @
     [CHR 0x0A] @ ''        var __vars = {};'' @
     [CHR 0x0A] @ ''        '' @ code @
     [CHR 0x0A] @ ''        '' @ collectVarsCode variableNames @
     [CHR 0x0A] @ ''        return __vars;'' @
     [CHR 0x0A] @ ''      })()'' @
     [CHR 0x0A] @ ''    ''"

definition executeTemplateMode ::
  "platform \<Rightarrow> scope \<Rightarrow> string \<Rightarrow> vm_event list \<times> ScriptResult outcome" where
  "executeTemplateMode p context code =
     (let variableNames = extractVariableNames code;
          wrappedCode = template_wrapped code variableNames in
      case new_script p wrappedCode of
        Some e \<Rightarrow> ([NewScript wrappedCode], mode_catch e)
      | None \<Rightarrow>
          (case run_in_context p wrappedCode TIMEOUT_MS context of
             Inr (vars, context') \<Rightarrow>
               ([NewScript wrappedCode, RunInContext wrappedCode TIMEOUT_MS],
                Returns (succeeded_variables vars))
           | Inl e \<Rightarrow>
               ([NewScript wrappedCode, RunInContext wrappedCode TIMEOUT_MS], mode_catch e)))"

text \<open>
  \<^verbatim>\<open>JSON.stringify\<close> of a string (the operation QuoteJSONString of ECMAScript), on the
  code units of the model.
\<close>

definition hex_digit :: "nat \<Rightarrow> char" where
  "hex_digit d = ''0123456789abcdef'' ! (d mod 16)"

definition quote_char :: "char \<Rightarrow> string" where
  "quote_char c =
     (if c = CHR 0x22 then [backslash, CHR 0x22]
      else if c = backslash then [backslash, backslash]
      else if c = CHR 0x08 then [backslash, CHR ''b'']
      else if c = CHR 0x0C then [backslash, CHR ''f'']
      else if c = CHR 0x0A then [backslash, CHR ''n'']
      else if c = CHR 0x0D then [backslash, CHR ''r'']
      else if c = CHR 0x09 then [backslash, CHR ''t'']
      else if (of_char c :: nat) < 32
      then [backslash, CHR ''u'', CHR ''0'', CHR ''0'',
            hex_digit (of_char c div 16), hex_digit (of_char c mod 16)]
      else [c])"

definition quote_json_string :: "string \<Rightarrow> string" where
  "quote_json_string s = [CHR 0x22] @ concat (map quote_char s) @ [CHR 0x22]"

text \<open>
  \<^verbatim>\<open>`var $ = JSON.parse(${JSON.stringify(dataJson)});`\<close>. When \<^verbatim>\<open>dataJson\<close> is
  \<^verbatim>\<open>undefined\<close>, so is \<^verbatim>\<open>JSON.stringify(dataJson)\<close>, and the template literal prints
  \<^verbatim>\<open>undefined\<close>.
\<close>

definition init_text :: "string option \<Rightarrow> string" where
  "init_text dataJson =
     ''var $ = JSON.parse('' @
     (case dataJson of None \<Rightarrow> ''undefined'' | Some s \<Rightarrow> quote_json_string s) @ '');''"

text \<open>\<^verbatim>\<open>data ?? null\<close>.\<close>

definition nullish_to_null :: "js_value \<Rightarrow> js_value" where
  "nullish_to_null data = (if data = JUndefined \<or> data = JNull then JNull else data)"

text \<open>
  The context after \<^verbatim>\<open>vm.createContext(Object.create(null))\<close> and the nine assignments of
  \<^verbatim>\<open>undefined\<close>: the properties the host has put on it.
\<close>

definition scrubbed_names :: "string list" where
  "scrubbed_names =
     [''Function'', ''eval'', ''constructor'', ''__proto__'', ''WeakRef'',
      ''FinalizationRegistry'', ''Proxy'', ''Reflect'', ''Symbol'']"

definition scrubbed_context :: scope where
  "scrubbed_context = (\<lambda>name. if name \<in> set scrubbed_names then Some JUndefined else None)"

text \<open>
  The \<^verbatim>\<open>try\<close> block of \<^verbatim>\<open>execute\<close>, with the calls made to the \<^verbatim>\<open>vm\<close> module so
  far. \<open>Propagates\<close> is a value thrown inside the block. The init script and the wrapped
  script run in the same context object, one after the other.
\<close>

definition try_block ::
  "platform \<Rightarrow> string \<Rightarrow> js_value \<Rightarrow> mode \<Rightarrow> vm_event list \<times> ScriptResult outcome" where
  "try_block p code data mode =
     (case validateScript code of
        Inl e \<Rightarrow> ([], Propagates e)
      | Inr _ \<Rightarrow>
          (case json_stringify p (nullish_to_null data) of
             Inl e \<Rightarrow> ([CreateContext], Propagates e)
           | Inr dataJson \<Rightarrow>
               (let initScript = init_text dataJson in
                case new_script p initScript of
                  Some e \<Rightarrow> ([CreateContext, NewScript initScript], Propagates e)
                | None \<Rightarrow>
                    (case run_in_context p initScript TIMEOUT_MS scrubbed_context of
                       Inl e \<Rightarrow>
                         ([CreateContext, NewScript initScript,
                           RunInContext initScript TIMEOUT_MS], Propagates e)
                     | Inr (initialised, context) \<Rightarrow>
                         (let (events, r) =
                                (if mode = Value then executeValueMode p context code
                                 else executeTemplateMode p context code)
                          in ([CreateContext, NewScript initScript,
                               RunInContext initScript TIMEOUT_MS] @ events, r))))))"

text \<open>
  \<^verbatim>\<open>execute\<close>: the \<^verbatim>\<open>try\<close> block and its \<^verbatim>\<open>catch\<close>, which logs a warning and returns
  the failure. The result has the calls made to the \<^verbatim>\<open>vm\<close> module and to the logger.
\<close>

definition execute ::
  "platform \<Rightarrow> string \<Rightarrow> js_value \<Rightarrow> mode \<Rightarrow> vm_event list \<times> ScriptResult outcome" where
  "execute p code data mode =
     (case try_block p code data mode of
        (events, Propagates e) \<Rightarrow>
          (case caught_message e of
             Returns m \<Rightarrow>
               (events @ [LoggerWarn (''Script execution failed: '' @ m)], Returns (failed m))
           | Propagates e' \<Rightarrow> (events, Propagates e')
           | NoReturn \<Rightarrow> (events, NoReturn))
      | (events, r) \<Rightarrow> (events, r))"

subsection \<open>Notions of the specification\<close>

text \<open>
  A whole-word occurrence of a token: the token stands in the text with no word character
  (letter, digit, underscore) right before it and none right after it.
\<close>

definition whole_word :: "string \<Rightarrow> string \<Rightarrow> bool" where
  "whole_word tok code \<longleftrightarrow>
     (\<exists>pre post. code = pre @ tok @ post \<and>
        (pre = [] \<or> \<not> is_word_char (last pre)) \<and>
        (post = [] \<or> \<not> is_word_char (hd post)))"

text \<open>A token whose first and last characters are word characters, as all of the denylist are.\<close>

definition word_ended :: "string \<Rightarrow> bool" where
  "word_ended tok \<longleftrightarrow> tok \<noteq> [] \<and> is_word_char (hd tok) \<and> is_word_char (last tok)"

text \<open>
  An identifier, as the service's own scan for declarations reads one:
  \<^verbatim>\<open>[a-zA-Z_$][a-zA-Z0-9_$]*\<close>.
\<close>

definition is_identifier :: "string \<Rightarrow> bool" where
  "is_identifier s \<longleftrightarrow>
     (case s of [] \<Rightarrow> False | c # cs \<Rightarrow> is_ident_start c \<and> list_all is_ident_char cs)"







definition is_vm_call :: "vm_event \<Rightarrow> bool" where
  "is_vm_call ev = (case ev of LoggerWarn m \<Rightarrow> False | _ \<Rightarrow> True)"

subsection \<open>Platforms for concrete runs\<close>

text \<open>
  A platform given by a table from script texts to what they do. It knows the scripts of
  its table and no other: a text that is not in the table does not compile. It serializes
  \<^verbatim>\<open>null\<close>, the booleans, strings and the empty object, and reports other data as not
  covered.
\<close>

definition demo_stringify :: "js_value \<Rightarrow> js_thrown + string option" where
  "demo_stringify v =
     (case v of
        JUndefined \<Rightarrow> Inr None
      | JNull \<Rightarrow> Inr (Some ''null'')
      | JBool b \<Rightarrow> Inr (Some (if b then ''true'' else ''false''))
      | JStr s \<Rightarrow> Inr (Some (quote_json_string s))
      | JObj props \<Rightarrow>
          (if props = [] then Inr (Some ''{}'') else Inl (HostError ''not covered''))
      | _ \<Rightarrow> Inl (HostError ''not covered''))"

text \<open>
  What a script does with the context it runs in: it binds a global name and has the value
  \<^verbatim>\<open>undefined\<close> (a \<^verbatim>\<open>var\<close> statement at the top of a script); it has a value and
  changes nothing; it throws.
\<close>

type_synonym behaviour = "scope \<Rightarrow> js_thrown + (js_value \<times> scope)"

definition script_binds :: "string \<Rightarrow> js_value \<Rightarrow> behaviour" where
  "script_binds name v context = Inr (JUndefined, context(name \<mapsto> v))"

definition script_yields :: "js_value \<Rightarrow> behaviour" where
  "script_yields v context = Inr (v, context)"


definition known_scripts :: "(string \<times> behaviour) list \<Rightarrow> platform" where
  "known_scripts table =
     \<lparr>json_stringify = demo_stringify,
      new_script = (\<lambda>text. case map_of table text of
                             None \<Rightarrow> Some (HostError ''not covered'')
                           | Some f \<Rightarrow> None),
      run_in_context = (\<lambda>text timeout context.
                          case map_of table text of
                            None \<Rightarrow> Inl (HostError ''not covered'')
                          | Some f \<Rightarrow> f context)\<rparr>"



definition init_object_script :: string where
  "init_object_script = ''var $ = JSON.parse('' @ [CHR 0x22] @ ''{}'' @ [CHR 0x22] @ '');''"






section \<open>Properties\<close>

subsection \<open>Auxiliary facts: text\<close>

lemma show_nat_digit: "n < 10 \<Longrightarrow> show_nat n = [digit_char n]"
  by (simp add: show_nat.simps)

lemma show_nat_step: "10 \<le> n \<Longrightarrow> show_nat n = show_nat (n div 10) @ [digit_char (n mod 10)]"
  by (subst show_nat.simps) simp

lemma show_max: "show_nat MAX_SCRIPT_LENGTH = ''10000''"
  by (simp add: MAX_SCRIPT_LENGTH_def show_nat_digit show_nat_step digit_char_def)

lemma contains_text_here: "contains_text needle (needle @ rest)"
proof (cases "needle @ rest")
  case Nil
  then show ?thesis by simp
next
  case (Cons a list)
  have "prefix needle (needle @ rest)" by simp
  with Cons show ?thesis by simp
qed

lemma contains_text_append: "contains_text needle (front @ needle @ rest)"
  by (induction front) (simp_all add: contains_text_here)

subsection \<open>Auxiliary facts: the shape of a result\<close>

lemma mode_catch_Returns: "mode_catch e = Returns r \<Longrightarrow> \<exists>m. r = failed m"
  by (auto simp: mode_catch_def split: outcome.splits)

lemma executeValueMode_Returns:
  "executeValueMode p c code = (ev, Returns r) \<Longrightarrow>
     (\<exists>v. r = succeeded_value v) \<or> (\<exists>m. r = failed m)"
  by (auto simp: executeValueMode_def Let_def split: option.splits sum.splits
           dest: mode_catch_Returns)

lemma executeTemplateMode_Returns:
  "executeTemplateMode p c code = (ev, Returns r) \<Longrightarrow>
     (\<exists>v. r = succeeded_variables v) \<or> (\<exists>m. r = failed m)"
  by (auto simp: executeTemplateMode_def Let_def split: option.splits sum.splits
           dest: mode_catch_Returns)

lemma try_block_Returns:
  "try_block p code data mode = (ev, Returns r) \<Longrightarrow>
     (\<exists>v. r = succeeded_value v) \<or> (\<exists>v. r = succeeded_variables v) \<or> (\<exists>m. r = failed m)"
  by (auto simp: try_block_def Let_def split: option.splits sum.splits prod.splits if_splits
           dest: executeValueMode_Returns executeTemplateMode_Returns)

lemma execute_Returns:
  "execute p code data mode = (ev, Returns r) \<Longrightarrow>
     (\<exists>v. r = succeeded_value v) \<or> (\<exists>v. r = succeeded_variables v) \<or> (\<exists>m. r = failed m)"
  by (auto simp: execute_def split: prod.splits outcome.splits dest: try_block_Returns)

lemma execute_oversized:
  assumes "length code > MAX_SCRIPT_LENGTH"
  shows "execute p code data mode =
           ([LoggerWarn (''Script execution failed: '' @ ''Script too large: '' @
                         show_nat (length code) @ '' characters (max 10000)'')],
            Returns (failed (''Script too large: '' @ show_nat (length code) @
                             '' characters (max 10000)'')))"
  using assms by (simp add: execute_def try_block_def validateScript_def show_max)

subsection \<open>C3: the shape of every result\<close>

text \<open>
  C3. Every \<^verbatim>\<open>ScriptResult\<close> that \<^verbatim>\<open>execute\<close> returns: when \<^verbatim>\<open>success\<close> is true, the
  field \<^verbatim>\<open>error\<close> is absent; when \<^verbatim>\<open>success\<close> is false, \<^verbatim>\<open>error\<close> is present and both
  \<^verbatim>\<open>value\<close> and \<^verbatim>\<open>variables\<close> are absent. This holds on every platform, for every code,
  data and mode.
\<close>

theorem result_shape:
  assumes "snd (execute p code data mode) = Returns r"
  shows "(success r \<longrightarrow> error r = None) \<and>
         (\<not> success r \<longrightarrow> error r \<noteq> None \<and> val r = None \<and> variables r = None)"
proof -
  obtain ev where "execute p code data mode = (ev, Returns r)"
    using assms by (cases "execute p code data mode") simp
  from execute_Returns [OF this] show ?thesis
    by (auto simp: succeeded_value_def succeeded_variables_def failed_def)
qed

theorem result_shape_witness:
  "snd (execute
          (known_scripts
             [(init_object_script, script_binds ''$'' (JObj [])),
              (''(function() { return 42; })()'', script_yields (JNum 42))])
          ''return 42;'' (JObj []) Value)
     = Returns (succeeded_value (JNum 42)) \<and>
   success (succeeded_value (JNum 42)) \<and> error (succeeded_value (JNum 42)) = None"
proof -
  have run: "snd (execute
          (known_scripts
             [(init_object_script, script_binds ''$'' (JObj [])),
              (''(function() { return 42; })()'', script_yields (JNum 42))])
          ''return 42;'' (JObj []) Value)
               = Returns (succeeded_value (JNum 42))"
    by code_simp
  have "success (succeeded_value (JNum 42))"
    by (simp add: succeeded_value_def)
  with result_shape [OF run] run show ?thesis
    by simp
qed

subsection \<open>C5: a script over the size limit\<close>

text \<open>
  C5, as amended. For every code longer than \<^verbatim>\<open>MAX_SCRIPT_LENGTH\<close> (10000 characters),
  \<^verbatim>\<open>execute\<close> returns \<^verbatim>\<open>success = false\<close> with the message
  \<^verbatim>\<open>Script too large: LENGTH characters (max 10000)\<close>, which contains \<^verbatim>\<open>too large\<close>; the
  only call it makes is the warning of the logger: no context is created, no script is
  compiled and none is run.
\<close>

theorem oversized_rejected_before_realm:
  assumes "length code > MAX_SCRIPT_LENGTH"
  shows "\<exists>m. m = ''Script too large: '' @ show_nat (length code) @ '' characters (max 10000)'' \<and>
             contains_text ''too large'' m \<and>
             snd (execute p code data mode) = Returns (failed m) \<and>
             fst (execute p code data mode) = [LoggerWarn (''Script execution failed: '' @ m)] \<and>
             filter is_vm_call (fst (execute p code data mode)) = []"
proof -
  have "contains_text ''too large''
          (''Script '' @ ''too large'' @ '': '' @ show_nat (length code) @ '' characters (max 10000)'')"
    by (rule contains_text_append)
  then show ?thesis
    using execute_oversized [OF assms, of p data mode] by (simp add: is_vm_call_def)
qed

theorem oversized_rejected_before_realm_witness:
  "length (replicate 10002 (CHR ''x'')) > MAX_SCRIPT_LENGTH \<and>
   snd (execute (known_scripts []) (replicate 10002 (CHR ''x'')) JNull Template)
     = Returns (failed ''Script too large: 10002 characters (max 10000)'') \<and>
   filter is_vm_call
     (fst (execute (known_scripts []) (replicate 10002 (CHR ''x'')) JNull Template)) = []"
proof -
  have big: "length (replicate 10002 (CHR ''x'')) > MAX_SCRIPT_LENGTH"
    by (simp add: MAX_SCRIPT_LENGTH_def)
  have "show_nat 10002 = ''10002''"
    by (simp add: show_nat_digit show_nat_step digit_char_def)
  with oversized_rejected_before_realm [OF big, of "known_scripts []" JNull Template] big
  show ?thesis
    by (simp add: is_vm_call_def)
qed

text \<open>
  The claim as it was stated gives the reason as \<^verbatim>\<open>script too large\<close>. At a code of 10001
  characters the message is another text, and does not contain that one either.
\<close>

theorem oversized_reason_counterexample:
  "snd (execute (known_scripts []) (replicate 10001 (CHR ''a'')) JNull Value)
     = Returns (failed ''Script too large: 10001 characters (max 10000)'') \<and>
   ''Script too large: 10001 characters (max 10000)'' \<noteq> ''script too large'' \<and>
   \<not> contains_text ''script too large'' ''Script too large: 10001 characters (max 10000)''"
proof -
  have big: "length (replicate 10001 (CHR ''a'')) > MAX_SCRIPT_LENGTH"
    by (simp add: MAX_SCRIPT_LENGTH_def)
  have "show_nat 10001 = ''10001''"
    by (simp add: show_nat_digit show_nat_step digit_char_def)
  with execute_oversized [OF big, of "known_scripts []" JNull Value]
  show ?thesis
    by simp
qed

subsection \<open>Auxiliary facts: the denylist\<close>

lemma first_char_append: "tok \<noteq> [] \<Longrightarrow> first_char (tok @ rest) = Some (hd tok)"
  by (cases tok) (simp_all add: first_char_def)

lemma first_char_word: "word_at (first_char s) \<longleftrightarrow> s \<noteq> [] \<and> is_word_char (hd s)"
  by (cases s) (simp_all add: first_char_def word_at_def)

lemma matches_here_iff:
  assumes "word_ended tok"
  shows "matches_here tok prev s \<longleftrightarrow>
           \<not> word_at prev \<and> (\<exists>post. s = tok @ post \<and> (post = [] \<or> \<not> is_word_char (hd post)))"
proof -
  from assms have ne: "tok \<noteq> []" and h: "is_word_char (hd tok)" and l: "is_word_char (last tok)"
    by (simp_all add: word_ended_def)
  show ?thesis
  proof
    assume m: "matches_here tok prev s"
    then obtain post where s: "s = tok @ post"
      by (auto simp: matches_here_def prefix_def)
    from h have "word_at (Some (hd tok))"
      by (simp add: word_at_def)
    with m s ne have "\<not> word_at prev"
      by (simp add: matches_here_def word_boundary_def first_char_append)
    moreover have "post = [] \<or> \<not> is_word_char (hd post)"
    proof -
      from l have w: "word_at (Some (last tok))"
        by (simp add: word_at_def)
      from m s ne w have "\<not> word_at (first_char post)"
        by (simp add: matches_here_def word_boundary_def last_char_def)
      then show ?thesis
        by (simp add: first_char_word)
    qed
    ultimately show "\<not> word_at prev \<and> (\<exists>post. s = tok @ post \<and> (post = [] \<or> \<not> is_word_char (hd post)))"
      using s by blast
  next
    assume "\<not> word_at prev \<and> (\<exists>post. s = tok @ post \<and> (post = [] \<or> \<not> is_word_char (hd post)))"
    then obtain post where p: "\<not> word_at prev" and s: "s = tok @ post"
      and e: "post = [] \<or> \<not> is_word_char (hd post)"
      by blast
    from e have n: "\<not> word_at (first_char post)"
      by (simp add: first_char_word)
    from h l have w: "word_at (Some (hd tok))" "word_at (Some (last tok))"
      by (simp_all add: word_at_def)
    from p s ne n w show "matches_here tok prev s"
      by (simp add: matches_here_def word_boundary_def first_char_append last_char_def)
  qed
qed

lemma test_from_iff:
  assumes "word_ended tok"
  shows "test_from tok prev s \<longleftrightarrow>
           (\<exists>pre post. s = pre @ tok @ post \<and>
              \<not> word_at (if pre = [] then prev else Some (last pre)) \<and>
              (post = [] \<or> \<not> is_word_char (hd post)))"
proof (induction s arbitrary: prev)
  case Nil
  from assms have "tok \<noteq> []" by (simp add: word_ended_def)
  then show ?case
    by (simp add: matches_here_iff [OF assms])
next
  case (Cons c cs)
  show ?case
  proof
    assume "test_from tok prev (c # cs)"
    then consider "matches_here tok prev (c # cs)" | "test_from tok (Some c) cs"
      by auto
    then show "\<exists>pre post. c # cs = pre @ tok @ post \<and>
              \<not> word_at (if pre = [] then prev else Some (last pre)) \<and>
              (post = [] \<or> \<not> is_word_char (hd post))"
    proof cases
      case 1
      then obtain post where "\<not> word_at prev" "c # cs = tok @ post"
        "post = [] \<or> \<not> is_word_char (hd post)"
        by (auto simp: matches_here_iff [OF assms])
      then have "c # cs = [] @ tok @ post \<and>
              \<not> word_at (if ([]::string) = [] then prev else Some (last [])) \<and>
              (post = [] \<or> \<not> is_word_char (hd post))"
        by simp
      then show ?thesis by blast
    next
      case 2
      then obtain pre post where cs: "cs = pre @ tok @ post"
        and b: "\<not> word_at (if pre = [] then Some c else Some (last pre))"
        and e: "post = [] \<or> \<not> is_word_char (hd post)"
        using Cons.IH by blast
      from cs b e have "c # cs = (c # pre) @ tok @ post \<and>
              \<not> word_at (if c # pre = [] then prev else Some (last (c # pre))) \<and>
              (post = [] \<or> \<not> is_word_char (hd post))"
        by (cases pre) simp_all
      then show ?thesis by blast
    qed
  next
    assume "\<exists>pre post. c # cs = pre @ tok @ post \<and>
              \<not> word_at (if pre = [] then prev else Some (last pre)) \<and>
              (post = [] \<or> \<not> is_word_char (hd post))"
    then obtain pre post where s: "c # cs = pre @ tok @ post"
      and b: "\<not> word_at (if pre = [] then prev else Some (last pre))"
      and e: "post = [] \<or> \<not> is_word_char (hd post)"
      by blast
    show "test_from tok prev (c # cs)"
    proof (cases pre)
      case Nil
      with s b e have "matches_here tok prev (c # cs)"
        by (auto simp: matches_here_iff [OF assms])
      then show ?thesis by simp
    next
      case (Cons d ds)
      with s have cs: "cs = ds @ tok @ post" and d: "d = c"
        by simp_all
      from b Cons d have "\<not> word_at (if ds = [] then Some c else Some (last ds))"
        by (cases ds) simp_all
      with cs e have "test_from tok (Some c) cs"
        using Cons.IH by blast
      then show ?thesis by simp
    qed
  qed
qed

lemma pattern_test_iff:
  assumes "word_ended tok"
  shows "pattern_test tok code \<longleftrightarrow> whole_word tok code"
proof -
  have "\<And>pre::string. (\<not> word_at (if pre = [] then None else Some (last pre))) =
              (pre = [] \<or> \<not> is_word_char (last pre))"
    by (simp add: word_at_def)
  then show ?thesis
    by (simp add: pattern_test_def whole_word_def test_from_iff [OF assms])
qed

lemma blocked_word_ended: "tok \<in> set BLOCKED_PATTERNS \<Longrightarrow> word_ended tok"
  by (auto simp: BLOCKED_PATTERNS_def word_ended_def is_word_char_def)

lemma blocked_source: "tok \<in> set BLOCKED_PATTERNS \<Longrightarrow> strip_word_marks (pattern_source tok) = tok"
  by (auto simp: BLOCKED_PATTERNS_def pattern_source_def backslash_def)


lemma check_patterns_none:
  "(\<forall>t \<in> set toks. \<not> pattern_test t code) \<Longrightarrow> check_patterns toks code = Inr ()"
  by (induction toks) simp_all

lemma check_patterns_first:
  "(\<forall>t \<in> set earlier. \<not> pattern_test t code) \<Longrightarrow> pattern_test tok code \<Longrightarrow>
   check_patterns (earlier @ tok # later) code =
     Inl (HostError (''Script contains forbidden keyword: '' @ strip_word_marks (pattern_source tok)))"
  by (induction earlier) simp_all

lemma validateScript_accepts:
  assumes "length code \<le> MAX_SCRIPT_LENGTH"
    and "\<forall>tok \<in> set BLOCKED_PATTERNS. \<not> whole_word tok code"
  shows "validateScript code = Inr ()"
proof -
  from assms(2) have "\<forall>t \<in> set BLOCKED_PATTERNS. \<not> pattern_test t code"
    by (simp add: pattern_test_iff [OF blocked_word_ended])
  with assms(1) show ?thesis
    by (simp add: validateScript_def check_patterns_none)
qed

lemma validateScript_rejects:
  assumes "length code \<le> MAX_SCRIPT_LENGTH"
    and "\<exists>tok \<in> set BLOCKED_PATTERNS. whole_word tok code"
  shows "\<exists>earlier tok later. BLOCKED_PATTERNS = earlier @ tok # later \<and>
           (\<forall>t \<in> set earlier. \<not> whole_word t code) \<and> whole_word tok code \<and>
           validateScript code =
             Inl (HostError (''Script contains forbidden keyword: '' @ tok))"
proof -
  from assms(2) have "\<exists>tok \<in> set BLOCKED_PATTERNS. pattern_test tok code"
    by (auto simp: pattern_test_iff [OF blocked_word_ended])
  from split_list_first_prop [OF this]
  obtain earlier tok later where split: "BLOCKED_PATTERNS = earlier @ tok # later"
    and hit: "pattern_test tok code" and miss: "\<forall>t \<in> set earlier. \<not> pattern_test t code"
    by blast
  have mem: "tok \<in> set BLOCKED_PATTERNS" "set earlier \<subseteq> set BLOCKED_PATTERNS"
    unfolding split by auto
  from mem hit have ww: "whole_word tok code"
    by (simp add: pattern_test_iff [OF blocked_word_ended])
  from mem miss have nw: "\<forall>t \<in> set earlier. \<not> whole_word t code"
    using pattern_test_iff [OF blocked_word_ended] by blast
  from miss hit have "check_patterns (earlier @ tok # later) code =
      Inl (HostError (''Script contains forbidden keyword: '' @ strip_word_marks (pattern_source tok)))"
    by (rule check_patterns_first)
  with split mem assms(1) have "validateScript code =
      Inl (HostError (''Script contains forbidden keyword: '' @ tok))"
    by (simp add: validateScript_def blocked_source)
  with split ww nw show ?thesis
    by blast
qed

lemma execute_rejected:
  assumes "validateScript code = Inl (HostError m)"
  shows "execute p code data mode =
           ([LoggerWarn (''Script execution failed: '' @ m)], Returns (failed m))"
  using assms by (simp add: execute_def try_block_def)

subsection \<open>C4: a denylisted token as a whole word\<close>

text \<open>
  C4, as amended. For every script within the size limit: when some token of the denylist
  occurs in it as a whole word (no letter, digit or underscore right before or right after
  the occurrence), \<^verbatim>\<open>execute\<close> returns \<^verbatim>\<open>success = false\<close> with the message
  \<^verbatim>\<open>Script contains forbidden keyword: TOKEN\<close>, where \<^verbatim>\<open>TOKEN\<close> is the first token of the
  denylist, in its order, that occurs as a whole word; the message contains
  \<^verbatim>\<open>forbidden keyword\<close> and that token. When no token of the denylist occurs as a whole
  word, the validator accepts the script. An occurrence next to a letter, a digit or an
  underscore is not a whole word; an occurrence next to \<^verbatim>\<open>$\<close> is one.
\<close>

theorem forbidden_keyword_rejection:
  assumes "length code \<le> MAX_SCRIPT_LENGTH"
  shows "((\<exists>tok \<in> set BLOCKED_PATTERNS. whole_word tok code) \<longrightarrow>
            (\<exists>earlier tok later. BLOCKED_PATTERNS = earlier @ tok # later \<and>
               (\<forall>t \<in> set earlier. \<not> whole_word t code) \<and> whole_word tok code \<and>
               snd (execute p code data mode) =
                 Returns (failed (''Script contains forbidden keyword: '' @ tok)) \<and>
               contains_text ''forbidden keyword'' (''Script contains forbidden keyword: '' @ tok) \<and>
               contains_text tok (''Script contains forbidden keyword: '' @ tok))) \<and>
         ((\<forall>tok \<in> set BLOCKED_PATTERNS. \<not> whole_word tok code) \<longrightarrow> validateScript code = Inr ())"
proof (intro conjI impI)
  assume "\<exists>tok \<in> set BLOCKED_PATTERNS. whole_word tok code"
  from validateScript_rejects [OF assms this]
  obtain earlier tok later where split: "BLOCKED_PATTERNS = earlier @ tok # later"
    and nw: "\<forall>t \<in> set earlier. \<not> whole_word t code" and ww: "whole_word tok code"
    and v: "validateScript code = Inl (HostError (''Script contains forbidden keyword: '' @ tok))"
    by blast
  have k: "contains_text ''forbidden keyword'' (''Script contains '' @ ''forbidden keyword'' @ '': '' @ tok)"
    by (rule contains_text_append)
  have t: "contains_text tok (''Script contains forbidden keyword: '' @ tok @ [])"
    by (rule contains_text_append)
  from execute_rejected [OF v, of p data mode] split nw ww k t
  show "\<exists>earlier tok later. BLOCKED_PATTERNS = earlier @ tok # later \<and>
               (\<forall>t \<in> set earlier. \<not> whole_word t code) \<and> whole_word tok code \<and>
               snd (execute p code data mode) =
                 Returns (failed (''Script contains forbidden keyword: '' @ tok)) \<and>
               contains_text ''forbidden keyword'' (''Script contains forbidden keyword: '' @ tok) \<and>
               contains_text tok (''Script contains forbidden keyword: '' @ tok)"
    by auto
next
  assume "\<forall>tok \<in> set BLOCKED_PATTERNS. \<not> whole_word tok code"
  with assms show "validateScript code = Inr ()"
    by (rule validateScript_accepts)
qed

theorem forbidden_keyword_rejection_witness:
  "length ''return eval(1);'' \<le> MAX_SCRIPT_LENGTH \<and>
   whole_word ''eval'' ''return eval(1);'' \<and>
   (\<exists>tok \<in> set BLOCKED_PATTERNS.
      snd (execute (known_scripts []) ''return eval(1);'' JNull Value) =
        Returns (failed (''Script contains forbidden keyword: '' @ tok))) \<and>
   length ''return typeof _process;'' \<le> MAX_SCRIPT_LENGTH \<and>
   \<not> (\<exists>tok \<in> set BLOCKED_PATTERNS. whole_word tok ''return typeof _process;'') \<and>
   validateScript ''return typeof _process;'' = Inr ()"
proof -
  have len1: "length ''return eval(1);'' \<le> MAX_SCRIPT_LENGTH"
    by (simp add: MAX_SCRIPT_LENGTH_def)
  have "pattern_test ''eval'' ''return eval(1);''"
    by code_simp
  moreover have mem: "''eval'' \<in> set BLOCKED_PATTERNS"
    by (simp add: BLOCKED_PATTERNS_def)
  ultimately have ww: "whole_word ''eval'' ''return eval(1);''"
    by (simp add: pattern_test_iff [OF blocked_word_ended])
  with mem have ex: "\<exists>tok \<in> set BLOCKED_PATTERNS. whole_word tok ''return eval(1);''"
    by blast
  have len2: "length ''return typeof _process;'' \<le> MAX_SCRIPT_LENGTH"
    by (simp add: MAX_SCRIPT_LENGTH_def)
  have "\<forall>tok \<in> set BLOCKED_PATTERNS. \<not> pattern_test tok ''return typeof _process;''"
    by code_simp
  then have none: "\<forall>tok \<in> set BLOCKED_PATTERNS. \<not> whole_word tok ''return typeof _process;''"
    by (simp add: pattern_test_iff [OF blocked_word_ended])
  from forbidden_keyword_rejection [OF len1, of "known_scripts []" JNull Value] ex
  have "\<exists>tok \<in> set BLOCKED_PATTERNS.
      snd (execute (known_scripts []) ''return eval(1);'' JNull Value) =
        Returns (failed (''Script contains forbidden keyword: '' @ tok))"
    by (metis in_set_conv_decomp)
  moreover from forbidden_keyword_rejection [OF len2, of "known_scripts []" JNull Value] none
  have "validateScript ''return typeof _process;'' = Inr ()"
    by blast
  ultimately show ?thesis
    using len1 len2 ww none by blast
qed

text \<open>
  The claim as it was stated says that a token inside a longer identifier does not trigger
  the rejection. \<^verbatim>\<open>$eval\<close> is an identifier, \<^verbatim>\<open>eval\<close> occurs in
  \<^verbatim>\<open>return $eval;\<close> only inside it, and the script is rejected: \<^verbatim>\<open>$\<close> is not a word
  character, so \<^verbatim>\<open>\b\<close> holds between \<^verbatim>\<open>$\<close> and \<^verbatim>\<open>e\<close>.
\<close>

theorem dollar_identifier_counterexample:
  "is_identifier ''$eval'' \<and>
   \<not> contains_text ''eval'' ''return '' \<and> \<not> contains_text ''eval'' '';'' \<and>
   snd (execute (known_scripts []) (''return '' @ ''$eval'' @ '';'') JNull Value)
     = Returns (failed ''Script contains forbidden keyword: eval'')"
  by code_simp

subsection \<open>C10: the denylist is a test on the text\<close>

text \<open>
  C10, as amended. For every script within the size limit in which a token of the denylist
  stands as a whole word, whatever the text before and after it is (code, a string
  literal, a comment), \<^verbatim>\<open>execute\<close> returns a failure whose message contains
  \<^verbatim>\<open>forbidden keyword\<close>, and makes no call to the \<^verbatim>\<open>vm\<close> module: the script is never
  compiled or run. The result is the same on every platform, for every data and mode.
\<close>

theorem denylist_is_textual:
  assumes "tok \<in> set BLOCKED_PATTERNS"
    and "length (pre @ tok @ post) \<le> MAX_SCRIPT_LENGTH"
    and "pre = [] \<or> \<not> is_word_char (last pre)"
    and "post = [] \<or> \<not> is_word_char (hd post)"
  shows "\<exists>m. contains_text ''forbidden keyword'' m \<and>
             execute p (pre @ tok @ post) data mode =
               ([LoggerWarn (''Script execution failed: '' @ m)], Returns (failed m)) \<and>
             filter is_vm_call (fst (execute p (pre @ tok @ post) data mode)) = []"
proof -
  from assms(3,4) have "whole_word tok (pre @ tok @ post)"
    unfolding whole_word_def by blast
  with assms(1) have "\<exists>tok' \<in> set BLOCKED_PATTERNS. whole_word tok' (pre @ tok @ post)"
    by blast
  from validateScript_rejects [OF assms(2) this]
  obtain tok' where v: "validateScript (pre @ tok @ post) =
      Inl (HostError (''Script contains forbidden keyword: '' @ tok'))"
    by blast
  have k: "contains_text ''forbidden keyword'' (''Script contains '' @ ''forbidden keyword'' @ '': '' @ tok')"
    by (rule contains_text_append)
  from execute_rejected [OF v, of p data mode] k show ?thesis
    by (auto simp: is_vm_call_def)
qed

theorem denylist_is_textual_witness:
  "''eval'' \<in> set BLOCKED_PATTERNS \<and>
   length (''return 1; // no '' @ ''eval'' @ '' here'') \<le> MAX_SCRIPT_LENGTH \<and>
   \<not> is_word_char (last ''return 1; // no '') \<and> \<not> is_word_char (hd '' here'') \<and>
   (\<exists>m. contains_text ''forbidden keyword'' m \<and>
        execute (known_scripts []) (''return 1; // no '' @ ''eval'' @ '' here'') JNull Value =
          ([LoggerWarn (''Script execution failed: '' @ m)], Returns (failed m)))"
proof -
  have a: "''eval'' \<in> set BLOCKED_PATTERNS"
    by (simp add: BLOCKED_PATTERNS_def)
  have b: "length (''return 1; // no '' @ ''eval'' @ '' here'') \<le> MAX_SCRIPT_LENGTH"
    by (simp add: MAX_SCRIPT_LENGTH_def)
  have c: "\<not> is_word_char (last ''return 1; // no '')"
    by (simp add: is_word_char_def)
  have d: "\<not> is_word_char (hd '' here'')"
    by (simp add: is_word_char_def)
  from denylist_is_textual [OF a b, of "known_scripts []" JNull Value] c d
  have "\<exists>m. contains_text ''forbidden keyword'' m \<and>
        execute (known_scripts []) (''return 1; // no '' @ ''eval'' @ '' here'') JNull Value =
          ([LoggerWarn (''Script execution failed: '' @ m)], Returns (failed m))"
    by blast
  with a b c d show ?thesis
    by blast
qed

text \<open>
  The claim as it was stated has no size limit. A script over the limit is rejected for its
  size, whatever tokens it has: the message does not mention a forbidden keyword.
\<close>

theorem oversized_denylisted_counterexample:
  "whole_word ''eval'' (''eval'' @ replicate 10000 (CHR '' '')) \<and>
   snd (execute (known_scripts []) (''eval'' @ replicate 10000 (CHR '' '')) JNull Value)
     = Returns (failed ''Script too large: 10004 characters (max 10000)'') \<and>
   \<not> contains_text ''forbidden keyword'' ''Script too large: 10004 characters (max 10000)''"
proof -
  have "\<not> is_word_char (hd (replicate 10000 (CHR '' '')))"
    by (simp add: is_word_char_def)
  then have "''eval'' @ replicate 10000 (CHR '' '') = [] @ ''eval'' @ replicate 10000 (CHR '' '') \<and>
      (([]::string) = [] \<or> \<not> is_word_char (last [])) \<and>
      (replicate 10000 (CHR '' '') = [] \<or> \<not> is_word_char (hd (replicate 10000 (CHR '' ''))))"
    by simp
  then have ww: "whole_word ''eval'' (''eval'' @ replicate 10000 (CHR '' ''))"
    unfolding whole_word_def by blast
  have big: "length (''eval'' @ replicate 10000 (CHR '' '')) > MAX_SCRIPT_LENGTH"
    by (simp add: MAX_SCRIPT_LENGTH_def)
  have "show_nat 10004 = ''10004''"
    by (simp add: show_nat_digit show_nat_step digit_char_def)
  with execute_oversized [OF big, of "known_scripts []" JNull Value] ww
  show ?thesis
    by simp
qed


subsection \<open>Auxiliary facts: what the catch blocks meet\<close>












subsection \<open>C2: failures become results\<close>




subsection \<open>Auxiliary facts: the scan for declarations\<close>




















subsection \<open>Auxiliary facts: the template mode\<close>










subsection \<open>C7: the declared variables of the template mode\<close>




end
